theory Spec2Isabelle
  imports Complex_Main
begin

section \<open>Strings and paths\<close>

text \<open>
  The downloader works on Python strings. They are modelled as HOL strings; the helpers
  below are the string operations the source uses: the substring test \<open>sub in s\<close>,
  \<open>sep.join(xs)\<close>, and \<open>os.path.join\<close> / \<open>os.path.dirname\<close> of \<open>posixpath\<close>.
\<close>

type_synonym path = string
type_synonym url = string
type_synonym content = string

fun startswith :: "string \<Rightarrow> string \<Rightarrow> bool" where
  "startswith s [] = True"
| "startswith [] (c # p) = False"
| "startswith (x # s) (c # p) = (x = c \<and> startswith s p)"

text \<open>\<open>py_in sub s\<close> is Python's \<open>sub in s\<close> on strings.\<close>

fun py_in :: "string \<Rightarrow> string \<Rightarrow> bool" where
  "py_in sub [] = (sub = [])"
| "py_in sub (x # s) = (startswith (x # s) sub \<or> py_in sub s)"

fun str_join :: "string \<Rightarrow> string list \<Rightarrow> string" where
  "str_join sep [] = []"
| "str_join sep [x] = x"
| "str_join sep (x # y # ys) = x @ sep @ str_join sep (y # ys)"

definition endswith_sep :: "path \<Rightarrow> bool" where
  "endswith_sep p = (case rev p of [] \<Rightarrow> False | c # _ \<Rightarrow> c = CHR ''/'')"

text \<open>One step of the loop of \<open>posixpath.join\<close>: an absolute component replaces the path.\<close>

definition join :: "path \<Rightarrow> path \<Rightarrow> path" where
  "join a b =
     (if startswith b ''/'' then b
      else if a = [] \<or> endswith_sep a then a @ b
      else a @ ''/'' @ b)"

definition join3 :: "path \<Rightarrow> path \<Rightarrow> path \<Rightarrow> path" where
  "join3 a b c = join (join a b) c"

definition join4 :: "path \<Rightarrow> path \<Rightarrow> path \<Rightarrow> path \<Rightarrow> path" where
  "join4 a b c d = join (join (join a b) c) d"

text \<open>
  \<open>posixpath.dirname\<close>: the part up to and including the last slash, with trailing
  slashes stripped unless it consists of slashes only.
\<close>

definition dirname :: "path \<Rightarrow> path" where
  "dirname p =
     (let head = rev (dropWhile (\<lambda>c. c \<noteq> CHR ''/'') (rev p))
      in if head \<noteq> [] \<and> \<not> list_all (\<lambda>c. c = CHR ''/'') head
         then rev (dropWhile (\<lambda>c. c = CHR ''/'') (rev head))
         else head)"

section \<open>Exceptions\<close>

datatype error =
    RuntimeError string
  | TypeError string
  | KeyError string
  | OSError string
  | URLError string
  | ZeroDivisionError string

text \<open>\<open>str_of e\<close> is \<open>str(e)\<close>; the text of a \<open>KeyError\<close> is the \<open>repr\<close> of the key.\<close>

fun str_of :: "error \<Rightarrow> string" where
  "str_of (RuntimeError m) = m"
| "str_of (TypeError m) = m"
| "str_of (KeyError k) = CHR 0x27 # k @ [CHR 0x27]"
| "str_of (OSError m) = m"
| "str_of (URLError m) = m"
| "str_of (ZeroDivisionError m) = m"

section \<open>The world: file system, network and console\<close>

text \<open>
  A call of \<open>urllib.request.urlretrieve\<close> is recorded with the URL, whether a report hook
  was passed, and the SSL context passed with it (if any).
\<close>

datatype ssl_context = Unverified

record request =
  req_url :: url
  req_hook :: bool
  req_context :: "ssl_context option"

text \<open>
  The state the program acts on: the regular files (path to content), the log of
  \<open>urlretrieve\<close> calls, the log of download jobs (the \<open>(url, out_file)\<close> pairs that
  \<open>download_file\<close> was called with), and the lines written to standard output.
\<close>

record world =
  files :: "path \<rightharpoonup> content"
  requests :: "request list"
  jobs :: "(url \<times> path) list"
  stdout :: "string list"

text \<open>
  The outcome of one transfer is decided by the environment: the whole body arrives, or
  the call raises after having written part of it (\<open>None\<close>: before the target file was
  opened).
\<close>

datatype transfer = Complete content | Broken "content option" error

datatype manifest =
    FilePairs "string list list"
  | Cohorts "(string \<times> string list) list"

text \<open>
  Everything outside the program: what the server answers to a retrieval, the name
  \<open>tempfile\<close> picks in a directory (or the error it raises), whether the operating
  system refuses a rename or a \<open>makedirs\<close>, and what a manifest URL parses to.
\<close>

record env =
  retrieve :: "request \<Rightarrow> transfer"
  mkstemp :: "path \<Rightarrow> error + path"
  rename_error :: "path \<Rightarrow> path \<Rightarrow> string option"
  makedirs_error :: "path \<Rightarrow> string option"
  urlopen_json :: "url \<Rightarrow> error + manifest"

definition print :: "string \<Rightarrow> world \<Rightarrow> world" where
  "print line w = w\<lparr>stdout := stdout w @ [line]\<rparr>"

definition isfile :: "world \<Rightarrow> path \<Rightarrow> bool" where
  "isfile w p = (files w p \<noteq> None)"

text \<open>
  \<open>tempfile.NamedTemporaryFile(delete=False, dir=d)\<close> creates an empty file under a name
  that did not exist (the file is opened with \<open>O_EXCL\<close>).
\<close>

definition NamedTemporaryFile :: "env \<Rightarrow> path \<Rightarrow> world \<Rightarrow> error + (path \<times> world)" where
  "NamedTemporaryFile e d w =
     (case mkstemp e d of
        Inl err \<Rightarrow> Inl err
      | Inr p \<Rightarrow>
          if files w p \<noteq> None then Inl (OSError ''File exists'')
          else Inr (p, w\<lparr>files := (files w)(p \<mapsto> [])\<rparr>))"

text \<open>
  \<open>urlretrieve(url, filename, ...)\<close>: the call is logged, then the file named
  \<open>filename\<close> receives what the transfer delivered. How the library answers a call is
  left to the environment, so what is proved holds for every answer; this covers
  CPython, whose \<open>urlretrieve(url, filename, reporthook, data)\<close> takes no \<open>context\<close>
  argument and raises \<open>TypeError\<close> for a call that passes one (\<open>Broken None\<close>).
\<close>

definition urlretrieve :: "env \<Rightarrow> request \<Rightarrow> path \<Rightarrow> world \<Rightarrow> (error + unit) \<times> world" where
  "urlretrieve e rq filename w =
     (let w' = w\<lparr>requests := requests w @ [rq]\<rparr>
      in case retrieve e rq of
           Complete c \<Rightarrow> (Inr (), w'\<lparr>files := (files w')(filename \<mapsto> c)\<rparr>)
         | Broken None err \<Rightarrow> (Inl err, w')
         | Broken (Some part) err \<Rightarrow> (Inl err, w'\<lparr>files := (files w')(filename \<mapsto> part)\<rparr>))"

definition rename :: "env \<Rightarrow> path \<Rightarrow> path \<Rightarrow> world \<Rightarrow> error + world" where
  "rename e src dst w =
     (case files w src of
        None \<Rightarrow> Inl (OSError ''No such file or directory'')
      | Some c \<Rightarrow>
          (case rename_error e src dst of
             Some m \<Rightarrow> Inl (OSError m)
           | None \<Rightarrow> Inr (w\<lparr>files := ((files w)(src := None))(dst \<mapsto> c)\<rparr>)))"

definition unlink :: "path \<Rightarrow> world \<Rightarrow> error + world" where
  "unlink p w =
     (case files w p of
        None \<Rightarrow> Inl (OSError ''No such file or directory'')
      | Some c \<Rightarrow> Inr (w\<lparr>files := (files w)(p := None)\<rparr>))"

section \<open>download_file\<close>

text \<open>
  The request \<open>download_file\<close> issues: with progress reporting the hook is passed and no
  context; without it the unverified context is passed and no hook.
\<close>

definition request_for :: "url \<Rightarrow> bool \<Rightarrow> request" where
  "request_for u report_progress =
     (let ctx = Unverified
      in if report_progress
         then \<lparr>req_url = u, req_hook = True, req_context = None\<rparr>
         else \<lparr>req_url = u, req_hook = False, req_context = Some ctx\<rparr>)"

text \<open>The \<open>except Exception\<close> block: remove the temporary file, raise \<open>RuntimeError\<close>.\<close>

definition download_failed :: "path \<Rightarrow> error \<Rightarrow> world \<Rightarrow> (error + unit) \<times> world" where
  "download_failed tmp err w =
     (case unlink tmp w of
        Inl err' \<Rightarrow> (Inl err', w)
      | Inr w' \<Rightarrow> (Inl (RuntimeError (''Download failed: '' @ str_of err)), w'))"

definition download_file :: "env \<Rightarrow> url \<Rightarrow> path \<Rightarrow> bool \<Rightarrow> world \<Rightarrow> (error + unit) \<times> world" where
  "download_file e u out_file report_progress w0 =
     (let w = w0\<lparr>jobs := jobs w0 @ [(u, out_file)]\<rparr>;
          out_dir = dirname out_file
      in if \<not> isfile w out_file then
           (case NamedTemporaryFile e out_dir w of
              Inl err \<Rightarrow> (Inl err, w)
            | Inr (tmp, w1) \<Rightarrow>
                (case urlretrieve e (request_for u report_progress) tmp w1 of
                   (Inl err, w2) \<Rightarrow> download_failed tmp err w2
                 | (Inr _, w2) \<Rightarrow>
                     (case rename e tmp out_file w2 of
                        Inl err \<Rightarrow> download_failed tmp err w2
                      | Inr w3 \<Rightarrow> (Inr (), w3))))
         else (Inr (), print (''Skipping existing file: '' @ out_file) w))"

text \<open>
  The worlds a call of \<open>download_file\<close> passes through, in the order of the source: at
  entry, after the temporary file was created, after \<open>urlretrieve\<close> returned or raised,
  and after the rename or after the \<open>except\<close> block. The last one is the world the call
  ends in; the ones before it are what another process can observe while the call runs.
  (Inside \<open>urlretrieve\<close> the blocks go to the file named \<open>filename\<close> only, so the states
  between its blocks differ from these in the content of the temporary file alone.)
\<close>

definition download_file_states :: "env \<Rightarrow> url \<Rightarrow> path \<Rightarrow> bool \<Rightarrow> world \<Rightarrow> world list" where
  "download_file_states e u out_file report_progress w0 =
     (let w = w0\<lparr>jobs := jobs w0 @ [(u, out_file)]\<rparr>;
          out_dir = dirname out_file
      in if \<not> isfile w out_file then
           (case NamedTemporaryFile e out_dir w of
              Inl err \<Rightarrow> [w]
            | Inr (tmp, w1) \<Rightarrow>
                (case urlretrieve e (request_for u report_progress) tmp w1 of
                   (Inl err, w2) \<Rightarrow> [w, w1, w2, snd (download_failed tmp err w2)]
                 | (Inr _, w2) \<Rightarrow>
                     (case rename e tmp out_file w2 of
                        Inl err \<Rightarrow> [w, w1, w2, snd (download_failed tmp err w2)]
                      | Inr w3 \<Rightarrow> [w, w1, w2, w3])))
         else [w, print (''Skipping existing file: '' @ out_file) w])"

section \<open>reporthook\<close>

text \<open>
  The hook passed to \<open>urlretrieve\<close> on the progress path. \<open>now\<close> is the reading of
  \<open>time.time()\<close> and \<open>start_time\<close> the function attribute \<open>reporthook.start_time\<close>; the
  result carries the new value of that attribute. Seconds are rationals and the
  quotients are exact, so the model says which inputs raise \<open>ZeroDivisionError\<close> and
  what is computed where the double-precision quotient is exact; it does not model the
  range of a double. The line written to the console is represented by the numbers
  formatted into it.
\<close>

datatype progress = Progress int int int rat

text \<open>Python's \<open>int(x)\<close> on a float truncates towards zero.\<close>

definition py_int :: "rat \<Rightarrow> int" where
  "py_int q = (if 0 \<le> q then \<lfloor>q\<rfloor> else \<lceil>q\<rceil>)"

definition reporthook :: "rat \<Rightarrow> int \<Rightarrow> int \<Rightarrow> int \<Rightarrow> rat \<Rightarrow> (error + progress option) \<times> rat" where
  "reporthook now count block_size total_size start_time =
     (if count = 0 then (Inr None, now)
      else
        let duration = now - start_time;
            progress_size = count * block_size
        in if 1024 * duration = 0
           then (Inl (ZeroDivisionError ''float division by zero''), start_time)
           else
             let speed = py_int (of_int progress_size / (1024 * duration))
             in if total_size = 0
                then (Inl (ZeroDivisionError ''division by zero''), start_time)
                else
                  let percent = py_int (of_int (count * block_size * 100) / of_int total_size)
                  in (Inr (Some (Progress percent progress_size speed duration)), start_time))"

section \<open>Catalogue\<close>

definition FILELIST_URL :: string where
  "FILELIST_URL = ''misc/filelist.json''"

definition DEEPFEAKES_DETECTION_URL :: string where
  "DEEPFEAKES_DETECTION_URL = ''misc/deepfake_detection_filenames.json''"

definition DEEPFAKES_MODEL_NAMES :: "string list" where
  "DEEPFAKES_MODEL_NAMES = [''decoder_A.h5'', ''decoder_B.h5'', ''encoder.h5'']"

definition DATASETS :: "(string \<times> string) list" where
  "DATASETS =
     [(''original_youtube_videos'', ''misc/downloaded_youtube_videos.zip''),
      (''original_youtube_videos_info'', ''misc/downloaded_youtube_videos_info.zip''),
      (''original'', ''original_sequences/youtube''),
      (''DeepFakeDetection_original'', ''original_sequences/actors''),
      (''Deepfakes'', ''manipulated_sequences/Deepfakes''),
      (''DeepFakeDetection'', ''manipulated_sequences/DeepFakeDetection''),
      (''Face2Face'', ''manipulated_sequences/Face2Face''),
      (''FaceShifter'', ''manipulated_sequences/FaceShifter''),
      (''FaceSwap'', ''manipulated_sequences/FaceSwap''),
      (''NeuralTextures'', ''manipulated_sequences/NeuralTextures'')]"

definition ALL_DATASETS :: "string list" where
  "ALL_DATASETS =
     [''original'', ''DeepFakeDetection_original'', ''Deepfakes'', ''DeepFakeDetection'',
      ''Face2Face'', ''FaceShifter'', ''FaceSwap'', ''NeuralTextures'']"

text \<open>The parsed command line (\<open>args.type\<close> is \<open>arg_type\<close>).\<close>

record args =
  arg_output_path :: path
  arg_dataset :: string
  arg_compression :: string
  arg_type :: string
  arg_num_videos :: "int option"
  arg_server :: string

definition get_server_url :: "string \<Rightarrow> url" where
  "get_server_url srv =
     (let server_urls =
            [(''EU'', ''http://canis.vc.in.tum.de:8100/''),
             (''EU2'', ''http://kaldir.vc.in.tum.de/faceforensics/''),
             (''CA'', ''http://falas.cmpt.sfu.ca:8100/'')]
      in case map_of server_urls srv of
           Some u \<Rightarrow> u
         | None \<Rightarrow> ''http://canis.vc.in.tum.de:8100/'')"

section \<open>download_files\<close>

text \<open>The \<open>for filename in filenames\<close> loop with its \<open>try\<close>/\<open>except\<close>.\<close>

fun download_loop :: "env \<Rightarrow> string list \<Rightarrow> url \<Rightarrow> path \<Rightarrow> world \<Rightarrow> world" where
  "download_loop e [] base_url out_path w = w"
| "download_loop e (filename # rest) base_url out_path w =
     (case download_file e (base_url @ filename) (join out_path filename) False w of
        (Inl err, w') \<Rightarrow>
          download_loop e rest base_url out_path
            (print (''Error downloading '' @ filename @ '': '' @ str_of err) w')
      | (Inr _, w') \<Rightarrow> download_loop e rest base_url out_path w')"

text \<open>
  \<open>report_progress\<close> only wraps the list in a \<open>tqdm\<close> progress bar (written to standard
  error); it does not reach \<open>download_file\<close>.
\<close>

definition download_files ::
  "env \<Rightarrow> string list \<Rightarrow> url \<Rightarrow> path \<Rightarrow> bool \<Rightarrow> world \<Rightarrow> (error + unit) \<times> world" where
  "download_files e filenames base_url out_path report_progress w =
     (case makedirs_error e out_path of
        Some m \<Rightarrow> (Inl (OSError m), w)
      | None \<Rightarrow> (Inr (), download_loop e filenames base_url out_path w))"

section \<open>Resolving the file list\<close>

text \<open>\<open>filepaths[key]\<close> on the parsed manifest.\<close>

definition subscript :: "manifest \<Rightarrow> string \<Rightarrow> error + string list" where
  "subscript m k =
     (case m of
        Cohorts kv \<Rightarrow> (case map_of kv k of None \<Rightarrow> Inl (KeyError k) | Some v \<Rightarrow> Inr v)
      | FilePairs ps \<Rightarrow> Inl (TypeError ''list indices must be integers or slices, not str''))"

text \<open>
  \<open>for pair in file_pairs\<close>, each \<open>pair\<close> read as a sequence of strings: iterating an
  object yields its keys, and a key is a sequence of one-character strings.
\<close>

definition iter_pairs :: "manifest \<Rightarrow> string list list" where
  "iter_pairs m =
     (case m of
        FilePairs ps \<Rightarrow> ps
      | Cohorts kv \<Rightarrow> map (\<lambda>(k, v). map (\<lambda>c. [c]) k) kv)"

definition expand_file_pairs :: "string \<Rightarrow> string list list \<Rightarrow> string list" where
  "expand_file_pairs c_type file_pairs =
     (let filelist = map (\<lambda>pair. str_join ''_'' pair) file_pairs
      in if c_type \<noteq> ''models''
         then filelist @ map (\<lambda>pair. str_join ''_'' (rev pair)) file_pairs
         else filelist)"

definition resolve_filelist :: "env \<Rightarrow> url \<Rightarrow> string \<Rightarrow> string \<Rightarrow> error + string list" where
  "resolve_filelist e base_url dataset_path c_type =
     (if py_in ''DeepFakeDetection'' dataset_path \<or> py_in ''actors'' dataset_path then
        (case urlopen_json e (base_url @ ''/'' @ DEEPFEAKES_DETECTION_URL) of
           Inl err \<Rightarrow> Inl err
         | Inr filepaths \<Rightarrow>
             if py_in ''actors'' dataset_path then subscript filepaths ''actors''
             else subscript filepaths ''DeepFakesDetection'')
      else if py_in ''original'' dataset_path then
        (case urlopen_json e (base_url @ ''/'' @ FILELIST_URL) of
           Inl err \<Rightarrow> Inl err
         | Inr file_pairs \<Rightarrow> Inr (concat (iter_pairs file_pairs)))
      else
        (case urlopen_json e (base_url @ ''/'' @ FILELIST_URL) of
           Inl err \<Rightarrow> Inl err
         | Inr file_pairs \<Rightarrow> Inr (expand_file_pairs c_type (iter_pairs file_pairs))))"

fun str_nat :: "nat \<Rightarrow> string" where
  "str_nat n =
     (if n < 10 then [char_of (48 + n)] else str_nat (n div 10) @ [char_of (48 + n mod 10)])"

declare str_nat.simps [simp del]

definition str_int :: "int \<Rightarrow> string" where
  "str_int i = (if i < 0 then CHR ''-'' # str_nat (nat (- i)) else str_nat (nat i))"

text \<open>The limit: \<open>filelist[:num_videos]\<close> when \<open>num_videos\<close> is given and positive.\<close>

definition limit_videos :: "int option \<Rightarrow> string list \<Rightarrow> world \<Rightarrow> string list \<times> world" where
  "limit_videos num_videos filelist w =
     (case num_videos of
        None \<Rightarrow> (filelist, w)
      | Some n \<Rightarrow>
          if n > 0
          then (take (nat n) filelist,
                print (''Downloading first '' @ str_int n @ '' videos'') w)
          else (filelist, w))"

definition with_mp4 :: "string list \<Rightarrow> string list" where
  "with_mp4 filelist = map (\<lambda>filename. filename @ ''.mp4'') filelist"

section \<open>main\<close>

text \<open>The \<open>for folder in tqdm(filelist)\<close> loop of the models branch.\<close>

fun download_models :: "env \<Rightarrow> string list \<Rightarrow> url \<Rightarrow> path \<Rightarrow> world \<Rightarrow> (error + unit) \<times> world" where
  "download_models e [] deepfakes_model_url out_path w = (Inr (), w)"
| "download_models e (folder # rest) deepfakes_model_url out_path w =
     (case download_files e DEEPFAKES_MODEL_NAMES (deepfakes_model_url @ folder @ ''/'')
             (join out_path folder) False w of
        (Inl err, w') \<Rightarrow> (Inl err, w')
      | (Inr _, w') \<Rightarrow> download_models e rest deepfakes_model_url out_path w')"

text \<open>
  The body of the \<open>try\<close> block for one regular dataset. \<open>Inl\<close> is an exception that
  leaves the block; a \<open>continue\<close> inside it is a normal end.
\<close>

definition dataset_body ::
  "env \<Rightarrow> args \<Rightarrow> url \<Rightarrow> string \<Rightarrow> string \<Rightarrow> world \<Rightarrow> (error + unit) \<times> world" where
  "dataset_body e a base_url dataset dataset_path w =
     (case resolve_filelist e base_url dataset_path (arg_type a) of
        Inl err \<Rightarrow> (Inl err, w)
      | Inr filelist0 \<Rightarrow>
          (case limit_videos (arg_num_videos a) filelist0 w of
             (filelist, w1) \<Rightarrow>
               (let c_type = arg_type a;
                    c_compression = arg_compression a;
                    deepfakes_model_url = base_url @ ''manipulated_sequences/Deepfakes/models/'';
                    dataset_videos_url =
                      base_url @ dataset_path @ ''/'' @ c_compression @ ''/'' @ c_type @ ''/'';
                    dataset_mask_url = base_url @ dataset_path @ ''/masks/videos/''
                in if c_type = ''videos'' then
                     (let out_path = join4 (arg_output_path a) dataset_path c_compression c_type;
                          w2 = print (''Output path: '' @ out_path) w1
                      in download_files e (with_mp4 filelist) dataset_videos_url out_path True w2)
                   else if c_type = ''masks'' then
                     (let out_path = join3 (arg_output_path a) dataset_path ''videos'';
                          w2 = print (''Output path: '' @ out_path) w1
                      in if py_in ''original'' dataset then
                           (Inr (), print ''Skipping masks for original data.'' w2)
                         else if py_in ''FaceShifter'' dataset then
                           (Inr (), print ''Masks not available for FaceShifter.'' w2)
                         else download_files e (with_mp4 filelist) dataset_mask_url out_path True w2)
                   else if c_type = ''models'' then
                     (if dataset \<noteq> ''Deepfakes'' then
                        (Inr (), print ''Models only available for Deepfakes.'' w1)
                      else
                        (let out_path = join3 (arg_output_path a) dataset_path c_type;
                             w2 = print (''Output path: '' @ out_path) w1
                         in download_models e filelist deepfakes_model_url out_path w2))
                   else (Inr (), w1))))"

text \<open>
  One turn of the loop over the datasets. \<open>Inl\<close> is an exception that nothing catches:
  it leaves \<open>main\<close> and ends the process.
\<close>

definition process_dataset ::
  "env \<Rightarrow> args \<Rightarrow> url \<Rightarrow> string \<Rightarrow> world \<Rightarrow> (error + unit) \<times> world" where
  "process_dataset e a base_url dataset w =
     (case map_of DATASETS dataset of
        None \<Rightarrow> (Inl (KeyError dataset), w)
      | Some dataset_path \<Rightarrow>
          if py_in ''original_youtube_videos'' dataset then
            (let suffix = (if \<not> py_in ''info'' dataset_path then [] else ''info'');
                 w1 = print (''Downloading original youtube videos''
                             @ (if suffix \<noteq> [] then '' info'' else []) @ ''.'') w
             in download_file e (base_url @ ''/'' @ dataset_path)
                  (join (arg_output_path a) (''downloaded_videos'' @ suffix @ ''.zip'')) True w1)
          else
            (let w1 = print (''Downloading '' @ arg_type a @ '' of dataset '' @ [CHR 0x22]
                             @ dataset_path @ [CHR 0x22]) w
             in case dataset_body e a base_url dataset dataset_path w1 of
                  (Inl err, w2) \<Rightarrow>
                    (Inr (), print (''Error processing dataset '' @ dataset @ '': '' @ str_of err) w2)
                | (Inr _, w2) \<Rightarrow> (Inr (), w2)))"

fun run_datasets :: "env \<Rightarrow> args \<Rightarrow> url \<Rightarrow> string list \<Rightarrow> world \<Rightarrow> (error + unit) \<times> world" where
  "run_datasets e a base_url [] w = (Inr (), w)"
| "run_datasets e a base_url (dataset # rest) w =
     (case process_dataset e a base_url dataset w of
        (Inl err, w') \<Rightarrow> (Inl err, w')
      | (Inr _, w') \<Rightarrow> run_datasets e a base_url rest w')"

text \<open>
  \<open>main\<close> after the arguments are parsed and the operator has answered the prompt.
  \<open>Inr\<close>: the run came to its end; \<open>Inl\<close>: an uncaught exception ended the process.
\<close>

definition main :: "env \<Rightarrow> args \<Rightarrow> world \<Rightarrow> (error + unit) \<times> world" where
  "main e a w =
     (let w1 = print ''Confirm FaceForensics Terms of Use'' w;
          w2 = print ''Press Enter to continue, or CTRL-C to exit.'' w1;
          server_url = get_server_url (arg_server a);
          base_url = server_url @ ''v3/''
      in case makedirs_error e (arg_output_path a) of
           Some m \<Rightarrow> (Inl (OSError m), w2)
         | None \<Rightarrow>
             run_datasets e a base_url
               (if arg_dataset a \<noteq> ''all'' then [arg_dataset a] else ALL_DATASETS) w2)"

section \<open>Concrete runs\<close>

text \<open>
  A world with no files, and environments for concrete runs: a server that delivers, one
  that cannot be reached, one whose transfer breaks after two bytes, one whose manifest
  cannot be fetched, one whose manifest is an object without entries, and one that serves
  the manifest of the detection datasets.
\<close>

definition world0 :: world where
  "world0 = \<lparr>files = Map.empty, requests = [], jobs = [], stdout = []\<rparr>"

definition env_ok :: env where
  "env_ok =
     \<lparr>retrieve = (\<lambda>rq. Complete ''DATA''),
      mkstemp = (\<lambda>d. Inr (join d ''tmpk3x9q2'')),
      rename_error = (\<lambda>src dst. None),
      makedirs_error = (\<lambda>p. None),
      urlopen_json = (\<lambda>u. Inr (FilePairs [[''a'', ''b''], [''c'', ''d'']]))\<rparr>"

definition env_down :: env where
  "env_down =
     env_ok\<lparr>retrieve := (\<lambda>rq. Broken None (URLError ''<urlopen error timed out>''))\<rparr>"

definition env_cut :: env where
  "env_cut =
     env_ok\<lparr>retrieve := (\<lambda>rq. Broken (Some ''DA'')
                (URLError ''retrieval incomplete: got only 2 out of 4 bytes''))\<rparr>"

definition env_no_manifest :: env where
  "env_no_manifest =
     env_ok\<lparr>urlopen_json := (\<lambda>u. Inl (URLError ''<urlopen error timed out>''))\<rparr>"

definition env_empty_manifest :: env where
  "env_empty_manifest = env_ok\<lparr>urlopen_json := (\<lambda>u. Inr (Cohorts []))\<rparr>"

definition env_actors :: env where
  "env_actors =
     env_ok\<lparr>urlopen_json := (\<lambda>u. Inr (Cohorts
        [(''actors'', [''01__exit_phone_room'', ''01__hugging_happy'']),
         (''DeepFakesDetection'', [''01_02__exit_phone_room__YVGY8LOK''])]))\<rparr>"

definition args_for :: "string \<Rightarrow> string \<Rightarrow> args" where
  "args_for d t =
     \<lparr>arg_output_path = ''out'', arg_dataset = d, arg_compression = ''raw'',
      arg_type = t, arg_num_videos = None, arg_server = ''EU''\<rparr>"

text \<open>The world after \<open>http://h/f.zip\<close> was fetched to \<open>out/f.zip\<close>.\<close>

definition world1 :: world where
  "world1 =
     \<lparr>files = [''out/f.zip'' \<mapsto> ''DATA''],
      requests = [\<lparr>req_url = ''http://h/f.zip'', req_hook = True, req_context = None\<rparr>],
      jobs = [(''http://h/f.zip'', ''out/f.zip'')],
      stdout = []\<rparr>"

section \<open>Properties of download_file\<close>

lemmas fs_defs = download_file_def isfile_def NamedTemporaryFile_def urlretrieve_def rename_def
  unlink_def download_failed_def print_def Let_def request_for_def

lemmas path_defs = dirname_def join_def join3_def join4_def endswith_sep_def

lemmas ex_defs = world0_def world1_def env_ok_def env_down_def env_cut_def env_no_manifest_def
  env_empty_manifest_def env_actors_def args_for_def

lemma print_fields:
  "jobs (print l w) = jobs w" "requests (print l w) = requests w" "files (print l w) = files w"
  "stdout (print l w) = stdout w @ [l]"
  by (simp_all add: print_def)

lemma NamedTemporaryFile_Inr:
  "NamedTemporaryFile e d w = Inr (tmp, w1) \<Longrightarrow>
     mkstemp e d = Inr tmp \<and> files w tmp = None \<and> w1 = w\<lparr>files := (files w)(tmp \<mapsto> [])\<rparr>"
  by (auto simp: NamedTemporaryFile_def split: sum.splits if_splits)

lemma NamedTemporaryFile_Inl:
  "NamedTemporaryFile e d w = Inl err \<Longrightarrow> mkstemp e d = Inr tmp \<Longrightarrow> files w tmp \<noteq> None"
  by (auto simp: NamedTemporaryFile_def split: sum.splits if_splits)

lemma urlretrieve_Inr:
  "urlretrieve e rq f w = (Inr x, w2) \<Longrightarrow>
     \<exists>c. retrieve e rq = Complete c \<and>
         w2 = w\<lparr>requests := requests w @ [rq], files := (files w)(f \<mapsto> c)\<rparr>"
  by (cases "retrieve e rq") (auto simp: urlretrieve_def Let_def split: option.splits)

lemma urlretrieve_Inl:
  "urlretrieve e rq f w = (Inl err, w2) \<Longrightarrow>
     requests w2 = requests w @ [rq] \<and> jobs w2 = jobs w \<and> stdout w2 = stdout w \<and>
     (\<forall>p. p \<noteq> f \<longrightarrow> files w2 p = files w p) \<and> (files w f \<noteq> None \<longrightarrow> files w2 f \<noteq> None)"
  by (cases "retrieve e rq") (auto simp: urlretrieve_def Let_def split: option.splits)

lemma urlretrieve_jobs: "jobs (snd (urlretrieve e rq f w)) = jobs w"
  by (cases "retrieve e rq") (auto simp: urlretrieve_def Let_def split: option.splits)

lemma rename_Inr:
  "rename e src dst w = Inr w3 \<Longrightarrow>
     \<exists>c. files w src = Some c \<and> w3 = w\<lparr>files := ((files w)(src := None))(dst \<mapsto> c)\<rparr>"
  by (auto simp: rename_def split: option.splits)

lemma download_failed_present:
  "files w tmp \<noteq> None \<Longrightarrow>
     download_failed tmp err w =
       (Inl (RuntimeError (''Download failed: '' @ str_of err)), w\<lparr>files := (files w)(tmp := None)\<rparr>)"
  by (auto simp: download_failed_def unlink_def split: option.splits)

lemma download_failed_jobs: "jobs (snd (download_failed tmp err w)) = jobs w"
  by (auto simp: download_failed_def unlink_def split: option.splits)

lemma download_file_present:
  "files w out_file \<noteq> None \<Longrightarrow>
     download_file e u out_file rp w =
       (Inr (), w\<lparr>jobs := jobs w @ [(u, out_file)],
                  stdout := stdout w @ [''Skipping existing file: '' @ out_file]\<rparr>)"
  by (cases "files w out_file") (simp_all add: download_file_def isfile_def print_def Let_def)

lemma download_file_absent:
  assumes "files w out_file = None"
  shows "download_file e u out_file rp w =
     (case NamedTemporaryFile e (dirname out_file) (w\<lparr>jobs := jobs w @ [(u, out_file)]\<rparr>) of
        Inl err \<Rightarrow> (Inl err, w\<lparr>jobs := jobs w @ [(u, out_file)]\<rparr>)
      | Inr (tmp, w1) \<Rightarrow>
          (case urlretrieve e (request_for u rp) tmp w1 of
             (Inl err, w2) \<Rightarrow> download_failed tmp err w2
           | (Inr _, w2) \<Rightarrow>
               (case rename e tmp out_file w2 of
                  Inl err \<Rightarrow> download_failed tmp err w2
                | Inr w3 \<Rightarrow> (Inr (), w3))))"
  using assms by (simp add: download_file_def isfile_def Let_def)

text \<open>A call on an absent destination that returns: the transfer was complete.\<close>

lemma download_file_returns:
  assumes absent: "files w out_file = None"
      and run: "download_file e u out_file rp w = (Inr x, w')"
  shows "\<exists>c. retrieve e (request_for u rp) = Complete c \<and> files w' out_file = Some c \<and>
             requests w' = requests w @ [request_for u rp]"
proof -
  define wj where "wj = w\<lparr>jobs := jobs w @ [(u, out_file)]\<rparr>"
  from run absent obtain tmp w1 where nt: "NamedTemporaryFile e (dirname out_file) wj = Inr (tmp, w1)"
    by (auto simp: download_file_absent wj_def split: sum.splits)
  from NamedTemporaryFile_Inr [OF nt]
  have w1: "w1 = wj\<lparr>files := (files wj)(tmp \<mapsto> [])\<rparr>" by blast
  obtain r2 w2 where ur: "urlretrieve e (request_for u rp) tmp w1 = (r2, w2)"
    by (cases "urlretrieve e (request_for u rp) tmp w1")
  have fail: "download_failed tmp err w2 \<noteq> (Inr x, w')" for err
    by (auto simp: download_failed_def split: sum.splits)
  from run absent nt ur fail obtain y where r2: "r2 = Inr y"
    by (cases r2) (auto simp: download_file_absent wj_def [symmetric])
  from ur r2 urlretrieve_Inr obtain c where c: "retrieve e (request_for u rp) = Complete c"
    and w2: "w2 = w1\<lparr>requests := requests w1 @ [request_for u rp], files := (files w1)(tmp \<mapsto> c)\<rparr>"
    by blast
  from run absent nt ur r2 fail obtain w3 where rn: "rename e tmp out_file w2 = Inr w3" and w': "w' = w3"
    by (cases "rename e tmp out_file w2") (auto simp: download_file_absent wj_def [symmetric])
  from rename_Inr [OF rn] obtain c' where "files w2 tmp = Some c'"
    and w3: "w3 = w2\<lparr>files := ((files w2)(tmp := None))(out_file \<mapsto> c')\<rparr>" by blast
  with w2 have "c' = c" by simp
  with w3 w' c w2 w1 show ?thesis by (simp add: wj_def)
qed

text \<open>A call on an absent destination that raises: nothing is left at the destination.\<close>

lemma download_file_raises:
  assumes absent: "files w out_file = None"
      and run: "download_file e u out_file rp w = (Inl err, w')"
  shows "files w' out_file = None \<and>
         (\<forall>tmp m. mkstemp e (dirname out_file) = Inr tmp \<and> err = RuntimeError m
                  \<longrightarrow> files w' tmp = None)"
proof -
  define wj where "wj = w\<lparr>jobs := jobs w @ [(u, out_file)]\<rparr>"
  have wj: "files wj = files w" by (simp add: wj_def)
  show ?thesis
  proof (cases "NamedTemporaryFile e (dirname out_file) wj")
    case (Inl err0)
    with run absent have "w' = wj" "err = err0"
      by (simp_all add: download_file_absent wj_def [symmetric])
    moreover have "files wj tmp \<noteq> None" if "mkstemp e (dirname out_file) = Inr tmp" for tmp
      using NamedTemporaryFile_Inl [OF Inl that] .
    moreover have "err0 \<noteq> RuntimeError m" if "mkstemp e (dirname out_file) = Inr tmp" for tmp m
      using Inl that by (auto simp: NamedTemporaryFile_def split: if_splits)
    ultimately show ?thesis using absent wj by auto
  next
    case (Inr pr)
    obtain tmp w1 where pr: "pr = (tmp, w1)" by (cases pr)
    from Inr pr NamedTemporaryFile_Inr
    have tmp: "mkstemp e (dirname out_file) = Inr tmp"
      and w1: "w1 = wj\<lparr>files := (files wj)(tmp \<mapsto> [])\<rparr>" by blast+
    obtain r2 w2 where ur: "urlretrieve e (request_for u rp) tmp w1 = (r2, w2)"
      by (cases "urlretrieve e (request_for u rp) tmp w1")
    have "files w2 tmp \<noteq> None \<and> (out_file \<noteq> tmp \<longrightarrow> files w2 out_file = None)"
    proof (cases r2)
      case (Inl err2)
      with ur urlretrieve_Inl
      have "\<forall>p. p \<noteq> tmp \<longrightarrow> files w2 p = files w1 p" "files w1 tmp \<noteq> None \<longrightarrow> files w2 tmp \<noteq> None"
        by blast+
      with w1 wj absent show ?thesis by simp
    next
      case (Inr y)
      with ur urlretrieve_Inr obtain c where
        "w2 = w1\<lparr>requests := requests w1 @ [request_for u rp], files := (files w1)(tmp \<mapsto> c)\<rparr>"
        by blast
      with w1 wj absent show ?thesis by simp
    qed
    then have pres: "files w2 tmp \<noteq> None" and other: "out_file \<noteq> tmp \<longrightarrow> files w2 out_file = None"
      by blast+
    from run absent Inr pr ur obtain err2 where "download_failed tmp err2 w2 = (Inl err, w')"
      by (cases r2; cases "rename e tmp out_file w2")
         (auto simp: download_file_absent wj_def [symmetric])
    with download_failed_present [OF pres]
    have "w' = w2\<lparr>files := (files w2)(tmp := None)\<rparr>" by simp
    with other tmp show ?thesis by auto
  qed
qed

lemma download_file_jobs: "jobs (snd (download_file e u out_file rp w)) = jobs w @ [(u, out_file)]"
proof (cases "files w out_file")
  case (Some c)
  then show ?thesis by (simp add: download_file_present)
next
  case None
  define wj where "wj = w\<lparr>jobs := jobs w @ [(u, out_file)]\<rparr>"
  show ?thesis
  proof (cases "NamedTemporaryFile e (dirname out_file) wj")
    case (Inl err)
    with None show ?thesis by (simp add: download_file_absent wj_def [symmetric]) (simp add: wj_def)
  next
    case (Inr pr)
    obtain tmp w1 where pr: "pr = (tmp, w1)" by (cases pr)
    with Inr NamedTemporaryFile_Inr have w1: "jobs w1 = jobs wj" by fastforce
    obtain r2 w2 where ur: "urlretrieve e (request_for u rp) tmp w1 = (r2, w2)"
      by (cases "urlretrieve e (request_for u rp) tmp w1")
    with urlretrieve_jobs [of e "request_for u rp" tmp w1] have w2: "jobs w2 = jobs w1" by simp
    have "jobs (snd (download_file e u out_file rp w)) = jobs w2"
      using None Inr pr ur
      by (cases r2; cases "rename e tmp out_file w2")
         (auto simp: download_file_absent wj_def [symmetric] download_failed_jobs dest!: rename_Inr)
    with w2 w1 show ?thesis by (simp add: wj_def)
  qed
qed

lemma download_file_states_present:
  "files w out_file \<noteq> None \<Longrightarrow>
     download_file_states e u out_file rp w =
       [w\<lparr>jobs := jobs w @ [(u, out_file)]\<rparr>,
        w\<lparr>jobs := jobs w @ [(u, out_file)],
          stdout := stdout w @ [''Skipping existing file: '' @ out_file]\<rparr>]"
  by (cases "files w out_file") (simp_all add: download_file_states_def isfile_def print_def Let_def)

lemma download_file_states_absent:
  assumes "files w out_file = None"
  shows "download_file_states e u out_file rp w =
     (case NamedTemporaryFile e (dirname out_file) (w\<lparr>jobs := jobs w @ [(u, out_file)]\<rparr>) of
        Inl err \<Rightarrow> [w\<lparr>jobs := jobs w @ [(u, out_file)]\<rparr>]
      | Inr (tmp, w1) \<Rightarrow>
          (case urlretrieve e (request_for u rp) tmp w1 of
             (Inl err, w2) \<Rightarrow>
               [w\<lparr>jobs := jobs w @ [(u, out_file)]\<rparr>, w1, w2, snd (download_failed tmp err w2)]
           | (Inr _, w2) \<Rightarrow>
               (case rename e tmp out_file w2 of
                  Inl err \<Rightarrow>
                    [w\<lparr>jobs := jobs w @ [(u, out_file)]\<rparr>, w1, w2,
                     snd (download_failed tmp err w2)]
                | Inr w3 \<Rightarrow> [w\<lparr>jobs := jobs w @ [(u, out_file)]\<rparr>, w1, w2, w3])))"
  using assms by (simp add: download_file_states_def isfile_def Let_def)

text \<open>The call ends in the last of its states.\<close>

lemma download_file_states_last:
  "last (download_file_states e u out_file rp w) = snd (download_file e u out_file rp w)"
proof (cases "files w out_file")
  case (Some c)
  then show ?thesis by (simp add: download_file_present download_file_states_present)
next
  case None
  then show ?thesis
    by (simp add: download_file_absent download_file_states_absent
             split: sum.splits prod.splits)
qed

text \<open>Until its last step the call writes to the temporary file only.\<close>

lemma download_file_states_before_last:
  assumes absent: "files w out_file = None"
      and other: "mkstemp e (dirname out_file) \<noteq> Inr out_file"
      and s: "s \<in> set (butlast (download_file_states e u out_file rp w))"
  shows "files s out_file = None"
proof -
  define wj where "wj = w\<lparr>jobs := jobs w @ [(u, out_file)]\<rparr>"
  have wj: "files wj out_file = None" using absent by (simp add: wj_def)
  show ?thesis
  proof (cases "NamedTemporaryFile e (dirname out_file) wj")
    case (Inl err)
    with s absent show ?thesis by (simp add: download_file_states_absent wj_def [symmetric])
  next
    case (Inr pr)
    obtain tmp w1 where pr: "pr = (tmp, w1)" by (cases pr)
    from Inr pr NamedTemporaryFile_Inr
    have tmp: "mkstemp e (dirname out_file) = Inr tmp"
      and w1: "w1 = wj\<lparr>files := (files wj)(tmp \<mapsto> [])\<rparr>" by blast+
    from tmp other have ne: "out_file \<noteq> tmp" by auto
    with w1 wj have f1: "files w1 out_file = None" by simp
    obtain r2 w2 where ur: "urlretrieve e (request_for u rp) tmp w1 = (r2, w2)"
      by (cases "urlretrieve e (request_for u rp) tmp w1")
    have f2: "files w2 out_file = None"
    proof (cases r2)
      case (Inl err2)
      with ur urlretrieve_Inl have "\<forall>p. p \<noteq> tmp \<longrightarrow> files w2 p = files w1 p" by blast
      with ne f1 show ?thesis by simp
    next
      case (Inr y)
      with ur urlretrieve_Inr obtain c where
        "w2 = w1\<lparr>requests := requests w1 @ [request_for u rp], files := (files w1)(tmp \<mapsto> c)\<rparr>"
        by blast
      with ne f1 show ?thesis by simp
    qed
    from s absent Inr pr ur have "s = wj \<or> s = w1 \<or> s = w2"
      by (cases r2; cases "rename e tmp out_file w2")
         (auto simp: download_file_states_absent wj_def [symmetric])
    with wj f1 f2 show ?thesis by blast
  qed
qed

text \<open>A call that raises after the temporary file was made: the error is the one of the
  \<open>except\<close> block, and the temporary file is gone.\<close>

lemma download_file_raises_tmp:
  assumes absent: "files w out_file = None"
      and run: "download_file e u out_file rp w = (Inl err, w')"
      and tmp: "mkstemp e (dirname out_file) = Inr tmp" "files w tmp = None"
  shows "files w' tmp = None \<and> (\<exists>err0. err = RuntimeError (''Download failed: '' @ str_of err0))"
proof -
  define wj where "wj = w\<lparr>jobs := jobs w @ [(u, out_file)]\<rparr>"
  define w1 where "w1 = wj\<lparr>files := (files wj)(tmp \<mapsto> [])\<rparr>"
  from tmp have nt: "NamedTemporaryFile e (dirname out_file) wj = Inr (tmp, w1)"
    by (simp add: NamedTemporaryFile_def wj_def w1_def)
  obtain r2 w2 where ur: "urlretrieve e (request_for u rp) tmp w1 = (r2, w2)"
    by (cases "urlretrieve e (request_for u rp) tmp w1")
  have pres: "files w2 tmp \<noteq> None"
  proof (cases r2)
    case (Inl err2)
    with ur urlretrieve_Inl have "files w1 tmp \<noteq> None \<longrightarrow> files w2 tmp \<noteq> None" by blast
    then show ?thesis by (simp add: w1_def)
  next
    case (Inr y)
    with ur urlretrieve_Inr obtain c where
      "w2 = w1\<lparr>requests := requests w1 @ [request_for u rp], files := (files w1)(tmp \<mapsto> c)\<rparr>"
      by blast
    then show ?thesis by simp
  qed
  from run absent nt ur obtain err0 where "download_failed tmp err0 w2 = (Inl err, w')"
    by (cases r2; cases "rename e tmp out_file w2")
       (auto simp: download_file_absent wj_def [symmetric])
  with download_failed_present [OF pres, of err0] show ?thesis by auto
qed

text \<open>
  Claim C1. A call of \<open>download_file\<close> on a destination that is absent ends in one of two
  ways. If it returns, the transfer was complete and the destination holds exactly the
  content delivered. If it raises, no file exists at the destination; the
  \<open>RuntimeError\<close> of the \<open>except\<close> block comes with the temporary file removed, and
  every raise after the temporary file was made is that error and has removed it. The
  call ends in the last of its states, and in every state before the last one no file
  exists at the destination: the file appears there by the final rename only, after the
  complete transfer, and what a broken transfer wrote is in the temporary file. (Names
  of \<open>tempfile\<close> are \<open>tmp\<close> and eight characters drawn from letters, digits and the
  underscore; the states before the last are those of a call whose temporary file is
  not drawn under the destination's own name.)
\<close>

theorem download_file_atomic:
  assumes absent: "files w out_file = None"
      and run: "download_file e u out_file rp w = (r, w')"
  shows "(case r of
            Inr x \<Rightarrow> (\<exists>c. retrieve e (request_for u rp) = Complete c \<and> files w' out_file = Some c)
          | Inl err \<Rightarrow>
              files w' out_file = None \<and>
              (\<forall>tmp m. mkstemp e (dirname out_file) = Inr tmp \<and> err = RuntimeError m
                 \<longrightarrow> files w' tmp = None) \<and>
              (\<forall>tmp. mkstemp e (dirname out_file) = Inr tmp \<and> files w tmp = None
                 \<longrightarrow> files w' tmp = None \<and>
                     (\<exists>err0. err = RuntimeError (''Download failed: '' @ str_of err0)))) \<and>
         last (download_file_states e u out_file rp w) = w' \<and>
         (mkstemp e (dirname out_file) \<noteq> Inr out_file \<longrightarrow>
            (\<forall>s \<in> set (butlast (download_file_states e u out_file rp w)).
               files s out_file = None))"
proof (intro conjI)
  show "case r of
            Inr x \<Rightarrow> (\<exists>c. retrieve e (request_for u rp) = Complete c \<and> files w' out_file = Some c)
          | Inl err \<Rightarrow>
              files w' out_file = None \<and>
              (\<forall>tmp m. mkstemp e (dirname out_file) = Inr tmp \<and> err = RuntimeError m
                 \<longrightarrow> files w' tmp = None) \<and>
              (\<forall>tmp. mkstemp e (dirname out_file) = Inr tmp \<and> files w tmp = None
                 \<longrightarrow> files w' tmp = None \<and>
                     (\<exists>err0. err = RuntimeError (''Download failed: '' @ str_of err0)))"
  proof (cases r)
    case (Inl err)
    with download_file_raises [OF absent] download_file_raises_tmp [OF absent] run
    show ?thesis by simp
  next
    case (Inr x)
    with download_file_returns [OF absent] run show ?thesis by fastforce
  qed
  show "last (download_file_states e u out_file rp w) = w'"
    using run by (simp add: download_file_states_last)
  show "mkstemp e (dirname out_file) \<noteq> Inr out_file \<longrightarrow>
            (\<forall>s \<in> set (butlast (download_file_states e u out_file rp w)).
               files s out_file = None)"
    using download_file_states_before_last [OF absent] by blast
qed

text \<open>
  A transfer that breaks after two bytes: nothing at the destination at any time, the two
  bytes in the temporary file, which is removed. A transfer that completes: the content
  appears at the destination in the last state only.
\<close>

theorem download_file_atomic_witness:
  "files world0 ''out/a_b.mp4'' = None \<and>
   mkstemp env_cut (dirname ''out/a_b.mp4'') = Inr ''out/tmpk3x9q2'' \<and>
   fst (download_file env_cut ''http://h/a_b.mp4'' ''out/a_b.mp4'' True world0) =
     Inl (RuntimeError ''Download failed: retrieval incomplete: got only 2 out of 4 bytes'') \<and>
   files (snd (download_file env_cut ''http://h/a_b.mp4'' ''out/a_b.mp4'' True world0))
     ''out/a_b.mp4'' = None \<and>
   files (snd (download_file env_cut ''http://h/a_b.mp4'' ''out/a_b.mp4'' True world0))
     ''out/tmpk3x9q2'' = None \<and>
   map (\<lambda>s. files s ''out/a_b.mp4'')
     (download_file_states env_cut ''http://h/a_b.mp4'' ''out/a_b.mp4'' True world0) =
     [None, None, None, None] \<and>
   map (\<lambda>s. files s ''out/tmpk3x9q2'')
     (download_file_states env_cut ''http://h/a_b.mp4'' ''out/a_b.mp4'' True world0) =
     [None, Some [], Some ''DA'', None] \<and>
   mkstemp env_ok (dirname ''out/a_b.mp4'') = Inr ''out/tmpk3x9q2'' \<and>
   fst (download_file env_ok ''http://h/a_b.mp4'' ''out/a_b.mp4'' True world0) = Inr () \<and>
   map (\<lambda>s. files s ''out/a_b.mp4'')
     (download_file_states env_ok ''http://h/a_b.mp4'' ''out/a_b.mp4'' True world0) =
     [None, None, None, Some ''DATA''] \<and>
   map (\<lambda>s. files s ''out/tmpk3x9q2'')
     (download_file_states env_ok ''http://h/a_b.mp4'' ''out/a_b.mp4'' True world0) =
     [None, Some [], Some ''DATA'', None]"
proof -
  let ?cut = "download_file env_cut ''http://h/a_b.mp4'' ''out/a_b.mp4'' True world0"
  let ?ok = "download_file env_ok ''http://h/a_b.mp4'' ''out/a_b.mp4'' True world0"
  have absent: "files world0 ''out/a_b.mp4'' = None" by (simp add: world0_def)
  have name: "mkstemp env_cut (dirname ''out/a_b.mp4'') = Inr ''out/tmpk3x9q2''"
    "mkstemp env_ok (dirname ''out/a_b.mp4'') = Inr ''out/tmpk3x9q2''"
    by (simp_all add: path_defs ex_defs)
  have fresh: "files world0 ''out/tmpk3x9q2'' = None" by (simp add: world0_def)
  have raised: "fst ?cut =
     Inl (RuntimeError ''Download failed: retrieval incomplete: got only 2 out of 4 bytes'')"
    by (simp add: fs_defs path_defs ex_defs)
  have returned: "fst ?ok = Inr ()"
    by (simp add: fs_defs path_defs ex_defs)
  have cut_states: "map (\<lambda>s. files s ''out/a_b.mp4'')
     (download_file_states env_cut ''http://h/a_b.mp4'' ''out/a_b.mp4'' True world0) =
     [None, None, None, None]"
    "map (\<lambda>s. files s ''out/tmpk3x9q2'')
     (download_file_states env_cut ''http://h/a_b.mp4'' ''out/a_b.mp4'' True world0) =
     [None, Some [], Some ''DA'', None]"
    by (simp_all add: download_file_states_def fs_defs path_defs ex_defs)
  have ok_states: "map (\<lambda>s. files s ''out/a_b.mp4'')
     (download_file_states env_ok ''http://h/a_b.mp4'' ''out/a_b.mp4'' True world0) =
     [None, None, None, Some ''DATA'']"
    "map (\<lambda>s. files s ''out/tmpk3x9q2'')
     (download_file_states env_ok ''http://h/a_b.mp4'' ''out/a_b.mp4'' True world0) =
     [None, Some [], Some ''DATA'', None]"
    by (simp_all add: download_file_states_def fs_defs path_defs ex_defs)
  have run: "?cut = (fst ?cut, snd ?cut)" by simp
  from download_file_atomic [OF absent run] raised
  have "files (snd ?cut) ''out/a_b.mp4'' = None \<and>
        (\<forall>tmp. mkstemp env_cut (dirname ''out/a_b.mp4'') = Inr tmp \<and> files world0 tmp = None
           \<longrightarrow> files (snd ?cut) tmp = None)"
    by simp
  with name(1) fresh
  have gone: "files (snd ?cut) ''out/a_b.mp4'' = None" "files (snd ?cut) ''out/tmpk3x9q2'' = None"
    by blast+
  from absent name raised returned cut_states ok_states gone show ?thesis by blast
qed

text \<open>
  Claim C3. When a file exists at the destination, \<open>download_file\<close> returns normally,
  issues no request, leaves the files as they are and prints the skip line. Hence, on a
  destination that is absent at first, a call that returns followed by a second call for
  the same URL and destination (whatever the network then does) amounts to exactly one
  request: the second call returns, adds no request, leaves the files unchanged and
  prints the skip line.
\<close>

theorem download_file_skips_existing:
  "(files w out_file \<noteq> None \<longrightarrow>
      fst (download_file e u out_file rp w) = Inr () \<and>
      requests (snd (download_file e u out_file rp w)) = requests w \<and>
      files (snd (download_file e u out_file rp w)) = files w \<and>
      stdout (snd (download_file e u out_file rp w)) =
        stdout w @ [''Skipping existing file: '' @ out_file]) \<and>
   (files w out_file = None \<and> download_file e u out_file rp w = (Inr (), w1) \<and>
    download_file e' u out_file rp' w1 = (r2, w2) \<longrightarrow>
      requests w1 = requests w @ [request_for u rp] \<and> r2 = Inr () \<and>
      requests w2 = requests w @ [request_for u rp] \<and> files w2 = files w1 \<and>
      stdout w2 = stdout w1 @ [''Skipping existing file: '' @ out_file])"
proof (rule conjI; rule impI)
  assume "files w out_file \<noteq> None"
  then show "fst (download_file e u out_file rp w) = Inr () \<and>
      requests (snd (download_file e u out_file rp w)) = requests w \<and>
      files (snd (download_file e u out_file rp w)) = files w \<and>
      stdout (snd (download_file e u out_file rp w)) =
        stdout w @ [''Skipping existing file: '' @ out_file]"
    by (simp add: download_file_present)
next
  assume a: "files w out_file = None \<and> download_file e u out_file rp w = (Inr (), w1) \<and>
    download_file e' u out_file rp' w1 = (r2, w2)"
  then have a1: "files w out_file = None"
    and a2: "download_file e u out_file rp w = (Inr (), w1)" by simp_all
  from download_file_returns [OF a1 a2]
  obtain c where c: "files w1 out_file = Some c"
    and rq: "requests w1 = requests w @ [request_for u rp]" by auto
  from c have "files w1 out_file \<noteq> None" by simp
  from download_file_present [OF this, of e' u rp'] a
  have "r2 = Inr ()" and "w2 = w1\<lparr>jobs := jobs w1 @ [(u, out_file)],
                  stdout := stdout w1 @ [''Skipping existing file: '' @ out_file]\<rparr>" by simp_all
  with rq show "requests w1 = requests w @ [request_for u rp] \<and> r2 = Inr () \<and>
      requests w2 = requests w @ [request_for u rp] \<and> files w2 = files w1 \<and>
      stdout w2 = stdout w1 @ [''Skipping existing file: '' @ out_file]" by simp
qed

text \<open>A fetch from a server that delivers, then a second call while the server is down.\<close>

theorem download_file_skips_existing_witness:
  "files world0 ''out/f.zip'' = None \<and>
   download_file env_ok ''http://h/f.zip'' ''out/f.zip'' True world0 = (Inr (), world1) \<and>
   files world1 ''out/f.zip'' = Some ''DATA'' \<and>
   fst (download_file env_down ''http://h/f.zip'' ''out/f.zip'' True world1) = Inr () \<and>
   requests (snd (download_file env_down ''http://h/f.zip'' ''out/f.zip'' True world1)) =
     [request_for ''http://h/f.zip'' True] \<and>
   files (snd (download_file env_down ''http://h/f.zip'' ''out/f.zip'' True world1)) = files world1 \<and>
   stdout (snd (download_file env_down ''http://h/f.zip'' ''out/f.zip'' True world1)) =
     [''Skipping existing file: out/f.zip'']"
proof -
  let ?second = "download_file env_down ''http://h/f.zip'' ''out/f.zip'' True world1"
  have absent: "files world0 ''out/f.zip'' = None" by (simp add: world0_def)
  have first: "download_file env_ok ''http://h/f.zip'' ''out/f.zip'' True world0 = (Inr (), world1)"
    by (simp add: fs_defs path_defs ex_defs)
  have present: "files world1 ''out/f.zip'' = Some ''DATA''" by (simp add: world1_def)
  have start: "requests world0 = []" "stdout world1 = []" by (simp_all add: world0_def world1_def)
  have "?second = (fst ?second, snd ?second)" by simp
  with absent first download_file_skips_existing [of world0 "''out/f.zip''" env_ok
      "''http://h/f.zip''" True world1 env_down True "fst ?second" "snd ?second"]
  have twice: "fst ?second = Inr () \<and> requests (snd ?second) = requests world0 @ [request_for ''http://h/f.zip'' True] \<and>
      files (snd ?second) = files world1 \<and>
      stdout (snd ?second) = stdout world1 @ [''Skipping existing file: '' @ ''out/f.zip'']"
    by blast
  from present download_file_skips_existing [of world1 "''out/f.zip''" env_down
      "''http://h/f.zip''" True world1 env_down True "Inr ()" world1]
  have skip: "requests (snd ?second) = requests world1" by simp
  have "requests world1 = [request_for ''http://h/f.zip'' True]"
    by (simp add: world1_def request_for_def)
  with skip twice absent first present start show ?thesis by simp
qed

lemma urlretrieve_requests: "requests (snd (urlretrieve e rq f w)) = requests w @ [rq]"
  by (cases "retrieve e rq") (auto simp: urlretrieve_def Let_def split: option.splits)

lemma download_failed_requests: "requests (snd (download_failed tmp err w)) = requests w"
  by (auto simp: download_failed_def unlink_def split: option.splits)

text \<open>A call issues no request, or exactly the request \<open>request_for\<close> describes.\<close>

lemma download_file_requests:
  "requests (snd (download_file e u out_file rp w)) = requests w \<or>
   requests (snd (download_file e u out_file rp w)) = requests w @ [request_for u rp]"
proof (cases "files w out_file")
  case (Some c)
  then show ?thesis by (simp add: download_file_present)
next
  case None
  define wj where "wj = w\<lparr>jobs := jobs w @ [(u, out_file)]\<rparr>"
  show ?thesis
  proof (cases "NamedTemporaryFile e (dirname out_file) wj")
    case (Inl err)
    with None show ?thesis by (simp add: download_file_absent wj_def [symmetric]) (simp add: wj_def)
  next
    case (Inr pr)
    obtain tmp w1 where pr: "pr = (tmp, w1)" by (cases pr)
    with Inr NamedTemporaryFile_Inr have w1: "requests w1 = requests wj" by fastforce
    obtain r2 w2 where ur: "urlretrieve e (request_for u rp) tmp w1 = (r2, w2)"
      by (cases "urlretrieve e (request_for u rp) tmp w1")
    with urlretrieve_requests [of e "request_for u rp" tmp w1]
    have w2: "requests w2 = requests w1 @ [request_for u rp]" by simp
    have "requests (snd (download_file e u out_file rp w)) = requests w2"
      using None Inr pr ur
      by (cases r2; cases "rename e tmp out_file w2")
         (auto simp: download_file_absent wj_def [symmetric] download_failed_requests
               dest!: rename_Inr)
    with w2 w1 show ?thesis by (simp add: wj_def)
  qed
qed

text \<open>
  Claim C4 says that every request of \<open>download_file\<close> carries the unverified SSL
  context, with or without progress reporting. The code creates the context on both
  paths but passes it on the path without progress reporting only: a call with
  \<open>report_progress=True\<close> issues no request or one request without any context, and in
  a concrete run it issues that request.
\<close>

theorem download_file_progress_request_has_no_context:
  "(requests (snd (download_file e u out_file True w)) = requests w \<or>
    requests (snd (download_file e u out_file True w)) =
      requests w @ [\<lparr>req_url = u, req_hook = True, req_context = None\<rparr>]) \<and>
   requests (snd (download_file env_ok ''http://h/f.zip'' ''out/f.zip'' True world0)) =
     [\<lparr>req_url = ''http://h/f.zip'', req_hook = True, req_context = None\<rparr>]"
proof
  from download_file_requests [of e u out_file True w]
  show "requests (snd (download_file e u out_file True w)) = requests w \<or>
    requests (snd (download_file e u out_file True w)) =
      requests w @ [\<lparr>req_url = u, req_hook = True, req_context = None\<rparr>]"
    by (simp add: request_for_def)
  show "requests (snd (download_file env_ok ''http://h/f.zip'' ''out/f.zip'' True world0)) =
     [\<lparr>req_url = ''http://h/f.zip'', req_hook = True, req_context = None\<rparr>]"
    by (simp add: fs_defs path_defs ex_defs)
qed

section \<open>Properties of the resolver and of main\<close>

lemma download_loop_jobs:
  "jobs (download_loop e fs base out w) = jobs w @ map (\<lambda>f. (base @ f, join out f)) fs"
proof (induction fs arbitrary: w)
  case Nil
  then show ?case by simp
next
  case (Cons f fs)
  obtain r w1 where dl: "download_file e (base @ f) (join out f) False w = (r, w1)"
    by (cases "download_file e (base @ f) (join out f) False w")
  with download_file_jobs [of e "base @ f" "join out f" False w]
  have "jobs w1 = jobs w @ [(base @ f, join out f)]" by simp
  with dl Cons.IH show ?case by (cases r) (simp_all add: print_def)
qed

text \<open>What the skipped branches of the \<open>try\<close> block leave behind.\<close>

lemma dataset_body_masks_skip:
  assumes "arg_type a = ''masks''" and "py_in ''original'' d \<or> py_in ''FaceShifter'' d"
  shows "jobs (snd (dataset_body e a base d p w)) = jobs w"
    and "requests (snd (dataset_body e a base d p w)) = requests w"
    and "files (snd (dataset_body e a base d p w)) = files w"
    and "resolve_filelist e base p ''masks'' = Inr fl \<Longrightarrow>
           fst (dataset_body e a base d p w) = Inr () \<and>
           last (stdout (snd (dataset_body e a base d p w))) =
             (if py_in ''original'' d then ''Skipping masks for original data.''
              else ''Masks not available for FaceShifter.'')"
  using assms
  by (auto simp: dataset_body_def limit_videos_def print_def Let_def
           split: sum.splits option.splits)

lemma dataset_body_models_skip:
  assumes "arg_type a = ''models''" and "d \<noteq> ''Deepfakes''"
  shows "jobs (snd (dataset_body e a base d p w)) = jobs w"
    and "requests (snd (dataset_body e a base d p w)) = requests w"
    and "files (snd (dataset_body e a base d p w)) = files w"
    and "resolve_filelist e base p ''models'' = Inr fl \<Longrightarrow>
           fst (dataset_body e a base d p w) = Inr () \<and>
           last (stdout (snd (dataset_body e a base d p w))) = ''Models only available for Deepfakes.''"
  using assms
  by (auto simp: dataset_body_def limit_videos_def print_def Let_def
           split: sum.splits option.splits)

text \<open>A regular dataset: the \<open>try\<close> block, with its \<open>except\<close> clause.\<close>

lemma process_dataset_regular:
  assumes "\<not> py_in ''original_youtube_videos'' d" and "map_of DATASETS d = Some p"
    and "w1 = print (''Downloading '' @ arg_type a @ '' of dataset '' @ [CHR 0x22] @ p @ [CHR 0x22]) w"
  shows "process_dataset e a base d w =
     (case dataset_body e a base d p w1 of
        (Inl err, w2) \<Rightarrow>
          (Inr (), print (''Error processing dataset '' @ d @ '': '' @ str_of err) w2)
      | (Inr x, w2) \<Rightarrow> (Inr (), w2))"
  using assms by (simp add: process_dataset_def Let_def)

lemma process_dataset_unknown:
  "map_of DATASETS d = None \<Longrightarrow> process_dataset e a base d w = (Inl (KeyError d), w)"
  by (simp add: process_dataset_def)

lemma process_dataset_regular_skip:
  assumes reg: "\<not> py_in ''original_youtube_videos'' d"
      and sk: "(arg_type a = ''masks'' \<and> (py_in ''original'' d \<or> py_in ''FaceShifter'' d)) \<or>
               (arg_type a = ''models'' \<and> d \<noteq> ''Deepfakes'')"
  shows "jobs (snd (process_dataset e a base d w)) = jobs w"
    and "requests (snd (process_dataset e a base d w)) = requests w"
    and "files (snd (process_dataset e a base d w)) = files w"
    and "map_of DATASETS d = Some p \<Longrightarrow> resolve_filelist e base p (arg_type a) = Inr fl \<Longrightarrow>
           fst (process_dataset e a base d w) = Inr () \<and>
           last (stdout (snd (process_dataset e a base d w))) =
             (if arg_type a = ''models'' then ''Models only available for Deepfakes.''
              else if py_in ''original'' d then ''Skipping masks for original data.''
              else ''Masks not available for FaceShifter.'')"
proof -
  define w1 where "w1 p = print (''Downloading '' @ arg_type a @ '' of dataset '' @ [CHR 0x22] @ p @ [CHR 0x22]) w" for p
  have w1: "jobs (w1 p) = jobs w" "requests (w1 p) = requests w" "files (w1 p) = files w" for p
    by (simp_all add: w1_def print_fields)
  have body: "jobs (snd (dataset_body e a base d p (w1 p))) = jobs w \<and>
              requests (snd (dataset_body e a base d p (w1 p))) = requests w \<and>
              files (snd (dataset_body e a base d p (w1 p))) = files w" for p
    using sk dataset_body_masks_skip(1-3) [of a d e base p "w1 p"]
      dataset_body_models_skip(1-3) [of a d e base p "w1 p"] w1 [of p]
    by auto
  have all: "jobs (snd (process_dataset e a base d w)) = jobs w \<and>
        requests (snd (process_dataset e a base d w)) = requests w \<and>
        files (snd (process_dataset e a base d w)) = files w"
  proof (cases "map_of DATASETS d")
    case None
    then show ?thesis by (simp add: process_dataset_unknown)
  next
    case (Some p)
    obtain r w2 where b: "dataset_body e a base d p (w1 p) = (r, w2)"
      by (cases "dataset_body e a base d p (w1 p)")
    with body [of p] have "jobs w2 = jobs w" "requests w2 = requests w" "files w2 = files w"
      by simp_all
    with b Some reg show ?thesis
      by (cases r) (simp_all add: process_dataset_regular [where ?w1.0 = "w1 p"] w1_def print_fields)
  qed
  then show "jobs (snd (process_dataset e a base d w)) = jobs w"
    and "requests (snd (process_dataset e a base d w)) = requests w"
    and "files (snd (process_dataset e a base d w)) = files w" by blast+
  assume p: "map_of DATASETS d = Some p" and fl: "resolve_filelist e base p (arg_type a) = Inr fl"
  obtain r w2 where b: "dataset_body e a base d p (w1 p) = (r, w2)"
    by (cases "dataset_body e a base d p (w1 p)")
  from sk have "r = Inr () \<and> last (stdout w2) =
             (if arg_type a = ''models'' then ''Models only available for Deepfakes.''
              else if py_in ''original'' d then ''Skipping masks for original data.''
              else ''Masks not available for FaceShifter.'')"
  proof
    assume m: "arg_type a = ''masks'' \<and> (py_in ''original'' d \<or> py_in ''FaceShifter'' d)"
    with fl dataset_body_masks_skip(4) [of a d e base p fl "w1 p"] b show ?thesis by simp
  next
    assume m: "arg_type a = ''models'' \<and> d \<noteq> ''Deepfakes''"
    with fl dataset_body_models_skip(4) [of a d e base p fl "w1 p"] b show ?thesis by simp
  qed
  with b p reg show "fst (process_dataset e a base d w) = Inr () \<and>
           last (stdout (snd (process_dataset e a base d w))) =
             (if arg_type a = ''models'' then ''Models only available for Deepfakes.''
              else if py_in ''original'' d then ''Skipping masks for original data.''
              else ''Masks not available for FaceShifter.'')"
    by (simp add: process_dataset_regular [where ?w1.0 = "w1 p"] w1_def)
qed

text \<open>A regular dataset whose file list cannot be resolved: the error is printed.\<close>

lemma process_dataset_regular_unresolved:
  assumes "\<not> py_in ''original_youtube_videos'' d" and "map_of DATASETS d = Some p"
    and "resolve_filelist e base p (arg_type a) = Inl err"
  shows "process_dataset e a base d w =
     (Inr (), print (''Error processing dataset '' @ d @ '': '' @ str_of err)
        (print (''Downloading '' @ arg_type a @ '' of dataset '' @ [CHR 0x22] @ p @ [CHR 0x22]) w))"
  using assms(3) by (simp add: process_dataset_regular [OF assms(1,2) refl] dataset_body_def)

text \<open>
  Claim C6 says that every unsupported combination is skipped with a message and emits
  no download job: masks of \<open>original\<close>, masks of \<open>FaceShifter\<close>, and models of any dataset
  but \<open>Deepfakes\<close>. The two archives \<open>original_youtube_videos\<close> and
  \<open>original_youtube_videos_info\<close> are handled before the asset type is looked at, and the
  skip tests of the other datasets stand behind the resolution of the file list, so the
  claim fails twice. Amended: for every dataset but the two archives, such a combination
  emits no download job, issues no retrieval and changes no file; when the file list of
  the dataset has been resolved, the turn ends normally with the skip message as the
  last line printed; when resolving it raised (the manifest could not be fetched, or
  lacks the entry of the dataset), the turn ends normally with the error line of the
  \<open>except\<close> clause as the last line printed.
\<close>

theorem unsupported_combination_emits_no_jobs:
  assumes regular: "\<not> py_in ''original_youtube_videos'' d"
      and unsupported:
        "(arg_type a = ''masks'' \<and> (d = ''original'' \<or> d = ''FaceShifter'')) \<or>
         (arg_type a = ''models'' \<and> d \<noteq> ''Deepfakes'')"
  shows "jobs (snd (process_dataset e a base d w)) = jobs w \<and>
         requests (snd (process_dataset e a base d w)) = requests w \<and>
         files (snd (process_dataset e a base d w)) = files w \<and>
         (\<forall>p fl. map_of DATASETS d = Some p \<and> resolve_filelist e base p (arg_type a) = Inr fl \<longrightarrow>
            fst (process_dataset e a base d w) = Inr () \<and>
            last (stdout (snd (process_dataset e a base d w))) =
              (if arg_type a = ''models'' then ''Models only available for Deepfakes.''
               else if d = ''original'' then ''Skipping masks for original data.''
               else ''Masks not available for FaceShifter.'')) \<and>
         (\<forall>p err. map_of DATASETS d = Some p \<and> resolve_filelist e base p (arg_type a) = Inl err \<longrightarrow>
            fst (process_dataset e a base d w) = Inr () \<and>
            last (stdout (snd (process_dataset e a base d w))) =
              ''Error processing dataset '' @ d @ '': '' @ str_of err)"
proof -
  have o: "py_in ''original'' ''original''" and f: "py_in ''FaceShifter'' ''FaceShifter''"
    and nf: "\<not> py_in ''original'' ''FaceShifter''" by simp_all
  from unsupported o f
  have sk: "(arg_type a = ''masks'' \<and> (py_in ''original'' d \<or> py_in ''FaceShifter'' d)) \<or>
            (arg_type a = ''models'' \<and> d \<noteq> ''Deepfakes'')" by auto
  from unsupported o nf
  have msg: "(if arg_type a = ''models'' then ''Models only available for Deepfakes.''
              else if py_in ''original'' d then ''Skipping masks for original data.''
              else ''Masks not available for FaceShifter.'') =
             (if arg_type a = ''models'' then ''Models only available for Deepfakes.''
              else if d = ''original'' then ''Skipping masks for original data.''
              else ''Masks not available for FaceShifter.'')" by auto
  have err: "fst (process_dataset e a base d w) = Inr () \<and>
            last (stdout (snd (process_dataset e a base d w))) =
              ''Error processing dataset '' @ d @ '': '' @ str_of err"
    if "map_of DATASETS d = Some p" "resolve_filelist e base p (arg_type a) = Inl err" for p err
    by (simp add: process_dataset_regular_unresolved [OF regular that] print_fields)
  show ?thesis
    using process_dataset_regular_skip(1-3) [OF regular sk, of e base w]
      process_dataset_regular_skip(4) [OF regular sk, of _ e base _ w] msg err
    by (intro conjI allI impI) (simp_all del: py_in.simps)
qed

theorem unsupported_combination_emits_no_jobs_witness:
  "\<not> py_in ''original_youtube_videos'' ''original'' \<and>
   arg_type (args_for ''original'' ''masks'') = ''masks'' \<and>
   map_of DATASETS ''original'' = Some ''original_sequences/youtube'' \<and>
   resolve_filelist env_ok ''http://s/v3/'' ''original_sequences/youtube'' ''masks'' =
     Inr [''a'', ''b'', ''c'', ''d''] \<and>
   jobs (snd (process_dataset env_ok (args_for ''original'' ''masks'') ''http://s/v3/''
               ''original'' world0)) = [] \<and>
   last (stdout (snd (process_dataset env_ok (args_for ''original'' ''masks'') ''http://s/v3/''
                       ''original'' world0))) = ''Skipping masks for original data.'' \<and>
   \<not> py_in ''original_youtube_videos'' ''NeuralTextures'' \<and>
   ''NeuralTextures'' \<noteq> ''Deepfakes'' \<and>
   jobs (snd (process_dataset env_ok (args_for ''NeuralTextures'' ''models'') ''http://s/v3/''
               ''NeuralTextures'' world0)) = []"
proof -
  have reg: "\<not> py_in ''original_youtube_videos'' ''original''"
    "\<not> py_in ''original_youtube_videos'' ''NeuralTextures''" by simp_all
  have ty: "arg_type (args_for ''original'' ''masks'') = ''masks''"
    "arg_type (args_for ''NeuralTextures'' ''models'') = ''models''" by (simp_all add: args_for_def)
  have p: "map_of DATASETS ''original'' = Some ''original_sequences/youtube''"
    by (simp add: DATASETS_def)
  have fl: "resolve_filelist env_ok ''http://s/v3/'' ''original_sequences/youtube'' ''masks'' =
     Inr [''a'', ''b'', ''c'', ''d'']"
    by (simp add: resolve_filelist_def env_ok_def iter_pairs_def)
  have w: "jobs world0 = []" by (simp add: world0_def)
  from reg(1) ty(1) p fl w
    unsupported_combination_emits_no_jobs [of "''original''" "args_for ''original'' ''masks''"
      env_ok "''http://s/v3/''" world0]
  have a: "jobs (snd (process_dataset env_ok (args_for ''original'' ''masks'') ''http://s/v3/''
               ''original'' world0)) = [] \<and>
     last (stdout (snd (process_dataset env_ok (args_for ''original'' ''masks'') ''http://s/v3/''
                       ''original'' world0))) = ''Skipping masks for original data.''"
    by simp
  from reg(2) ty(2) w
    unsupported_combination_emits_no_jobs [of "''NeuralTextures''"
      "args_for ''NeuralTextures'' ''models''" env_ok "''http://s/v3/''" world0]
  have b: "jobs (snd (process_dataset env_ok (args_for ''NeuralTextures'' ''models'') ''http://s/v3/''
               ''NeuralTextures'' world0)) = []"
    by simp
  from reg ty p fl a b show ?thesis by simp
qed

lemmas main_defs = main_def process_dataset_def DATASETS_def ALL_DATASETS_def get_server_url_def

text \<open>
  Models requested for the archive \<open>original_youtube_videos\<close>: the archive is downloaded.
  Masks requested for \<open>original\<close> while the manifest cannot be fetched, and models
  requested for \<open>DeepFakeDetection\<close> while the manifest lacks its entry: the error line
  is printed and no skip message.
\<close>

theorem unsupported_combination_counterexample:
  "jobs (snd (main env_ok (args_for ''original_youtube_videos'' ''models'') world0)) =
     [(''http://canis.vc.in.tum.de:8100/v3//misc/downloaded_youtube_videos.zip'',
       ''out/downloaded_videos.zip'')] \<and>
   process_dataset env_no_manifest (args_for ''original'' ''masks'') ''http://s/v3/'' ''original''
     world0 =
   (Inr (),
    world0\<lparr>stdout :=
      [''Downloading masks of dataset '' @ [CHR 0x22] @ ''original_sequences/youtube'' @ [CHR 0x22],
       ''Error processing dataset original: <urlopen error timed out>'']\<rparr>) \<and>
   process_dataset env_empty_manifest (args_for ''DeepFakeDetection'' ''models'') ''http://s/v3/''
     ''DeepFakeDetection'' world0 =
   (Inr (),
    world0\<lparr>stdout :=
      [''Downloading models of dataset '' @ [CHR 0x22]
         @ ''manipulated_sequences/DeepFakeDetection'' @ [CHR 0x22],
       ''Error processing dataset DeepFakeDetection: '' @ [CHR 0x27] @ ''DeepFakesDetection''
         @ [CHR 0x27]]\<rparr>)"
proof (intro conjI)
  show "jobs (snd (main env_ok (args_for ''original_youtube_videos'' ''models'') world0)) =
     [(''http://canis.vc.in.tum.de:8100/v3//misc/downloaded_youtube_videos.zip'',
       ''out/downloaded_videos.zip'')]"
    by (simp add: main_defs fs_defs path_defs ex_defs)
  show "process_dataset env_no_manifest (args_for ''original'' ''masks'') ''http://s/v3/'' ''original''
     world0 =
   (Inr (),
    world0\<lparr>stdout :=
      [''Downloading masks of dataset '' @ [CHR 0x22] @ ''original_sequences/youtube'' @ [CHR 0x22],
       ''Error processing dataset original: <urlopen error timed out>'']\<rparr>)"
    by (simp add: process_dataset_def DATASETS_def dataset_body_def resolve_filelist_def
          print_def ex_defs)
  show "process_dataset env_empty_manifest (args_for ''DeepFakeDetection'' ''models'') ''http://s/v3/''
     ''DeepFakeDetection'' world0 =
   (Inr (),
    world0\<lparr>stdout :=
      [''Downloading models of dataset '' @ [CHR 0x22]
         @ ''manipulated_sequences/DeepFakeDetection'' @ [CHR 0x22],
       ''Error processing dataset DeepFakeDetection: '' @ [CHR 0x27] @ ''DeepFakesDetection''
         @ [CHR 0x27]]\<rparr>)"
    by (simp add: process_dataset_def DATASETS_def dataset_body_def resolve_filelist_def
          subscript_def print_def ex_defs)
qed

text \<open>
  Claim C10 says that masks requested for the dataset \<open>DeepFakeDetection_original\<close> are
  skipped with the message for original data, because the mask test is a substring test.
  The test stands behind the resolution of the file list, so the message is not printed
  when that raises. Amended: the turn ends normally and emits no download job in every
  case; when the file list has been resolved (the manifest fetched, with its entry
  \<open>actors\<close>), the last line printed is the message for original data; when resolving it
  raised, the last line printed is the error line of the \<open>except\<close> clause.
\<close>

theorem masks_of_DeepFakeDetection_original_skipped:
  assumes "arg_type a = ''masks''"
  shows "fst (process_dataset e a base ''DeepFakeDetection_original'' w) = Inr () \<and>
         jobs (snd (process_dataset e a base ''DeepFakeDetection_original'' w)) = jobs w \<and>
         (\<forall>fl. resolve_filelist e base ''original_sequences/actors'' ''masks'' = Inr fl \<longrightarrow>
            last (stdout (snd (process_dataset e a base ''DeepFakeDetection_original'' w))) =
              ''Skipping masks for original data.'') \<and>
         (\<forall>err. resolve_filelist e base ''original_sequences/actors'' ''masks'' = Inl err \<longrightarrow>
            last (stdout (snd (process_dataset e a base ''DeepFakeDetection_original'' w))) =
              ''Error processing dataset DeepFakeDetection_original: '' @ str_of err)"
proof -
  let ?d = "''DeepFakeDetection_original''"
  have reg: "\<not> py_in ''original_youtube_videos'' ?d" by simp
  have sub: "py_in ''original'' ?d" by simp
  have p: "map_of DATASETS ?d = Some ''original_sequences/actors''" by (simp add: DATASETS_def)
  from assms sub
  have sk: "(arg_type a = ''masks'' \<and> (py_in ''original'' ?d \<or> py_in ''FaceShifter'' ?d)) \<or>
            (arg_type a = ''models'' \<and> ?d \<noteq> ''Deepfakes'')" by blast
  define w1 where "w1 = print (''Downloading '' @ arg_type a @ '' of dataset '' @ [CHR 0x22]
                               @ ''original_sequences/actors'' @ [CHR 0x22]) w"
  have ret: "fst (process_dataset e a base ?d w) = Inr ()"
    using process_dataset_regular [OF reg p w1_def, of e base]
    by (cases "dataset_body e a base ?d ''original_sequences/actors'' w1")
       (auto split: sum.splits)
  have msg: "last (stdout (snd (process_dataset e a base ?d w))) = ''Skipping masks for original data.''"
    if "resolve_filelist e base ''original_sequences/actors'' ''masks'' = Inr fl" for fl
    using process_dataset_regular_skip(4) [OF reg sk p, of e base fl w] that assms sub
    by (simp del: py_in.simps)
  have err: "last (stdout (snd (process_dataset e a base ?d w))) =
              ''Error processing dataset DeepFakeDetection_original: '' @ str_of err"
    if "resolve_filelist e base ''original_sequences/actors'' ''masks'' = Inl err" for err
    using that assms
    by (simp add: process_dataset_regular_unresolved [OF reg p, of e base a err w] print_fields
             del: py_in.simps)
  from ret process_dataset_regular_skip(1) [OF reg sk, of e base w] msg err
  show ?thesis by blast
qed

theorem masks_of_DeepFakeDetection_original_skipped_witness:
  "arg_type (args_for ''DeepFakeDetection_original'' ''masks'') = ''masks'' \<and>
   resolve_filelist env_actors ''http://s/v3/'' ''original_sequences/actors'' ''masks'' =
     Inr [''01__exit_phone_room'', ''01__hugging_happy''] \<and>
   fst (process_dataset env_actors (args_for ''DeepFakeDetection_original'' ''masks'')
          ''http://s/v3/'' ''DeepFakeDetection_original'' world0) = Inr () \<and>
   jobs (snd (process_dataset env_actors (args_for ''DeepFakeDetection_original'' ''masks'')
               ''http://s/v3/'' ''DeepFakeDetection_original'' world0)) = [] \<and>
   last (stdout (snd (process_dataset env_actors (args_for ''DeepFakeDetection_original'' ''masks'')
                       ''http://s/v3/'' ''DeepFakeDetection_original'' world0))) =
     ''Skipping masks for original data.''"
proof -
  have ty: "arg_type (args_for ''DeepFakeDetection_original'' ''masks'') = ''masks''"
    by (simp add: args_for_def)
  have fl: "resolve_filelist env_actors ''http://s/v3/'' ''original_sequences/actors'' ''masks'' =
     Inr [''01__exit_phone_room'', ''01__hugging_happy'']"
    by (simp add: resolve_filelist_def env_actors_def env_ok_def subscript_def)
  have w: "jobs world0 = []" by (simp add: world0_def)
  from ty fl w masks_of_DeepFakeDetection_original_skipped [OF ty, of env_actors "''http://s/v3/''" world0]
  show ?thesis by simp
qed

text \<open>
  The manifest cannot be fetched, or is fetched and has no entry \<open>actors\<close>: the error line
  is printed and no skip message.
\<close>

theorem masks_of_DeepFakeDetection_original_counterexample:
  "process_dataset env_no_manifest (args_for ''DeepFakeDetection_original'' ''masks'')
     ''http://s/v3/'' ''DeepFakeDetection_original'' world0 =
   (Inr (),
    world0\<lparr>stdout :=
      [''Downloading masks of dataset '' @ [CHR 0x22] @ ''original_sequences/actors'' @ [CHR 0x22],
       ''Error processing dataset DeepFakeDetection_original: <urlopen error timed out>'']\<rparr>) \<and>
   process_dataset env_empty_manifest (args_for ''DeepFakeDetection_original'' ''masks'')
     ''http://s/v3/'' ''DeepFakeDetection_original'' world0 =
   (Inr (),
    world0\<lparr>stdout :=
      [''Downloading masks of dataset '' @ [CHR 0x22] @ ''original_sequences/actors'' @ [CHR 0x22],
       ''Error processing dataset DeepFakeDetection_original: '' @ [CHR 0x27] @ ''actors''
         @ [CHR 0x27]]\<rparr>)"
  by (simp add: process_dataset_def DATASETS_def dataset_body_def resolve_filelist_def
        subscript_def print_def ex_defs)

text \<open>A regular dataset never ends the run: what its \<open>try\<close> block raises is caught.\<close>

lemma process_dataset_regular_returns:
  assumes "\<not> py_in ''original_youtube_videos'' d" and "map_of DATASETS d = Some p"
  shows "fst (process_dataset e a base d w) = Inr ()"
  using process_dataset_regular [OF assms refl, of e a base w]
  by (auto split: prod.splits sum.splits)

text \<open>
  Claim C5 says that no download failure ends the run, the archive downloads included.
  The call of \<open>download_file\<close> for the archives stands outside every \<open>try\<close> block: when
  the server cannot be reached, its \<open>RuntimeError\<close> leaves \<open>main\<close>, and no error line is
  printed.
\<close>

theorem main_archive_download_failure_uncaught:
  "main env_down (args_for ''original_youtube_videos'' ''videos'') world0 =
   (Inl (RuntimeError ''Download failed: <urlopen error timed out>''),
    \<lparr>files = Map.empty,
     requests = [\<lparr>req_url = ''http://canis.vc.in.tum.de:8100/v3//misc/downloaded_youtube_videos.zip'',
                  req_hook = True, req_context = None\<rparr>],
     jobs = [(''http://canis.vc.in.tum.de:8100/v3//misc/downloaded_youtube_videos.zip'',
              ''out/downloaded_videos.zip'')],
     stdout = [''Confirm FaceForensics Terms of Use'',
               ''Press Enter to continue, or CTRL-C to exit.'',
               ''Downloading original youtube videos.'']\<rparr>)"
  by (simp add: main_defs fs_defs path_defs ex_defs)

lemma download_files_jobs:
  "makedirs_error e out = None \<Longrightarrow>
     jobs (snd (download_files e fs base out rp w)) = jobs w @ map (\<lambda>f. (base @ f, join out f)) fs"
  by (simp add: download_files_def download_loop_jobs)

lemma download_models_jobs:
  "\<forall>p. makedirs_error e p = None \<Longrightarrow>
     jobs (snd (download_models e folders base out w)) =
       jobs w @ concat (map (\<lambda>folder. map (\<lambda>f. (base @ folder @ ''/'' @ f, join (join out folder) f))
                                    DEEPFAKES_MODEL_NAMES) folders)"
proof (induction folders arbitrary: w)
  case Nil
  then show ?case by simp
next
  case (Cons folder folders)
  then show ?case
    by (simp add: download_files_def download_loop_jobs)
qed

lemma process_dataset_regular_jobs:
  assumes "\<not> py_in ''original_youtube_videos'' d" and "map_of DATASETS d = Some p"
  shows "jobs (snd (process_dataset e a base d w)) =
         jobs (snd (dataset_body e a base d p
           (print (''Downloading '' @ arg_type a @ '' of dataset '' @ [CHR 0x22] @ p @ [CHR 0x22]) w)))"
  by (auto simp: process_dataset_regular [OF assms refl] print_fields split: prod.splits sum.splits)

text \<open>
  Claim C2 gives, for the manifest \<open>[["a","b"],["c","d"]]\<close> and videos, the order
  \<open>a_b.mp4, b_a.mp4, c_d.mp4, d_c.mp4\<close>. The code appends the reversed names after all
  names in original order. Amended: the expansion yields exactly
  \<open>a_b.mp4, c_d.mp4, b_a.mp4, d_c.mp4\<close>; this is the list the resolver produces for a
  manipulated dataset, and the order of the download jobs of its turn.
\<close>

theorem video_expansion_original_order_first:
  "with_mp4 (expand_file_pairs ''videos'' [[''a'', ''b''], [''c'', ''d'']]) =
     [''a_b.mp4'', ''c_d.mp4'', ''b_a.mp4'', ''d_c.mp4''] \<and>
   resolve_filelist env_ok ''http://s/v3/'' ''manipulated_sequences/Deepfakes'' ''videos'' =
     Inr [''a_b'', ''c_d'', ''b_a'', ''d_c''] \<and>
   map fst (jobs (snd (process_dataset env_ok (args_for ''Deepfakes'' ''videos'') ''http://s/v3/''
                        ''Deepfakes'' world0))) =
     [''http://s/v3/manipulated_sequences/Deepfakes/raw/videos/a_b.mp4'',
      ''http://s/v3/manipulated_sequences/Deepfakes/raw/videos/c_d.mp4'',
      ''http://s/v3/manipulated_sequences/Deepfakes/raw/videos/b_a.mp4'',
      ''http://s/v3/manipulated_sequences/Deepfakes/raw/videos/d_c.mp4'']"
proof (intro conjI)
  show "with_mp4 (expand_file_pairs ''videos'' [[''a'', ''b''], [''c'', ''d'']]) =
     [''a_b.mp4'', ''c_d.mp4'', ''b_a.mp4'', ''d_c.mp4'']"
    by (simp add: with_mp4_def expand_file_pairs_def)
  show fl: "resolve_filelist env_ok ''http://s/v3/'' ''manipulated_sequences/Deepfakes'' ''videos'' =
     Inr [''a_b'', ''c_d'', ''b_a'', ''d_c'']"
    by (simp add: resolve_filelist_def env_ok_def iter_pairs_def expand_file_pairs_def)
  have reg: "\<not> py_in ''original_youtube_videos'' ''Deepfakes''" by simp
  have p: "map_of DATASETS ''Deepfakes'' = Some ''manipulated_sequences/Deepfakes''"
    by (simp add: DATASETS_def)
  have mk: "makedirs_error env_ok q = None" for q by (simp add: env_ok_def)
  have body: "dataset_body env_ok (args_for ''Deepfakes'' ''videos'') ''http://s/v3/'' ''Deepfakes''
        ''manipulated_sequences/Deepfakes'' w =
      download_files env_ok [''a_b.mp4'', ''c_d.mp4'', ''b_a.mp4'', ''d_c.mp4'']
        ''http://s/v3/manipulated_sequences/Deepfakes/raw/videos/''
        ''out/manipulated_sequences/Deepfakes/raw/videos'' True
        (print ''Output path: out/manipulated_sequences/Deepfakes/raw/videos'' w)" for w
    by (simp add: dataset_body_def fl limit_videos_def args_for_def with_mp4_def path_defs Let_def)
  show "map fst (jobs (snd (process_dataset env_ok (args_for ''Deepfakes'' ''videos'') ''http://s/v3/''
                        ''Deepfakes'' world0))) =
     [''http://s/v3/manipulated_sequences/Deepfakes/raw/videos/a_b.mp4'',
      ''http://s/v3/manipulated_sequences/Deepfakes/raw/videos/c_d.mp4'',
      ''http://s/v3/manipulated_sequences/Deepfakes/raw/videos/b_a.mp4'',
      ''http://s/v3/manipulated_sequences/Deepfakes/raw/videos/d_c.mp4'']"
    by (simp add: process_dataset_regular_jobs [OF reg p] body download_files_jobs mk
          print_fields world0_def path_defs del: download_loop.simps)
qed

theorem video_expansion_counterexample:
  "with_mp4 (expand_file_pairs ''videos'' [[''a'', ''b''], [''c'', ''d'']]) \<noteq>
     [''a_b.mp4'', ''b_a.mp4'', ''c_d.mp4'', ''d_c.mp4'']"
  by (simp add: with_mp4_def expand_file_pairs_def)

text \<open>
  Claim C7. For the same manifest and models, the expansion yields exactly
  \<open>a_b, c_d\<close>: no reversed pair and no suffix. This is the list the resolver produces for
  \<open>Deepfakes\<close>, and each name is used as it is, as the folder of the three model files.
\<close>

theorem model_expansion_original_order_only:
  "expand_file_pairs ''models'' [[''a'', ''b''], [''c'', ''d'']] = [''a_b'', ''c_d''] \<and>
   resolve_filelist env_ok ''http://s/v3/'' ''manipulated_sequences/Deepfakes'' ''models'' =
     Inr [''a_b'', ''c_d''] \<and>
   map fst (jobs (snd (process_dataset env_ok (args_for ''Deepfakes'' ''models'') ''http://s/v3/''
                        ''Deepfakes'' world0))) =
     [''http://s/v3/manipulated_sequences/Deepfakes/models/a_b/decoder_A.h5'',
      ''http://s/v3/manipulated_sequences/Deepfakes/models/a_b/decoder_B.h5'',
      ''http://s/v3/manipulated_sequences/Deepfakes/models/a_b/encoder.h5'',
      ''http://s/v3/manipulated_sequences/Deepfakes/models/c_d/decoder_A.h5'',
      ''http://s/v3/manipulated_sequences/Deepfakes/models/c_d/decoder_B.h5'',
      ''http://s/v3/manipulated_sequences/Deepfakes/models/c_d/encoder.h5'']"
proof (intro conjI)
  show "expand_file_pairs ''models'' [[''a'', ''b''], [''c'', ''d'']] = [''a_b'', ''c_d'']"
    by (simp add: expand_file_pairs_def)
  show fl: "resolve_filelist env_ok ''http://s/v3/'' ''manipulated_sequences/Deepfakes'' ''models'' =
     Inr [''a_b'', ''c_d'']"
    by (simp add: resolve_filelist_def env_ok_def iter_pairs_def expand_file_pairs_def)
  have reg: "\<not> py_in ''original_youtube_videos'' ''Deepfakes''" by simp
  have p: "map_of DATASETS ''Deepfakes'' = Some ''manipulated_sequences/Deepfakes''"
    by (simp add: DATASETS_def)
  have mk: "\<forall>q. makedirs_error env_ok q = None" by (simp add: env_ok_def)
  have body: "dataset_body env_ok (args_for ''Deepfakes'' ''models'') ''http://s/v3/'' ''Deepfakes''
        ''manipulated_sequences/Deepfakes'' w =
      download_models env_ok [''a_b'', ''c_d'']
        ''http://s/v3/manipulated_sequences/Deepfakes/models/''
        ''out/manipulated_sequences/Deepfakes/models''
        (print ''Output path: out/manipulated_sequences/Deepfakes/models'' w)" for w
    by (simp add: dataset_body_def fl limit_videos_def args_for_def path_defs Let_def)
  show "map fst (jobs (snd (process_dataset env_ok (args_for ''Deepfakes'' ''models'') ''http://s/v3/''
                        ''Deepfakes'' world0))) =
     [''http://s/v3/manipulated_sequences/Deepfakes/models/a_b/decoder_A.h5'',
      ''http://s/v3/manipulated_sequences/Deepfakes/models/a_b/decoder_B.h5'',
      ''http://s/v3/manipulated_sequences/Deepfakes/models/a_b/encoder.h5'',
      ''http://s/v3/manipulated_sequences/Deepfakes/models/c_d/decoder_A.h5'',
      ''http://s/v3/manipulated_sequences/Deepfakes/models/c_d/decoder_B.h5'',
      ''http://s/v3/manipulated_sequences/Deepfakes/models/c_d/encoder.h5'']"
    by (simp add: process_dataset_regular_jobs [OF reg p] body download_models_jobs [OF mk]
          DEEPFAKES_MODEL_NAMES_def print_fields world0_def del: download_models.simps)
qed

text \<open>
  Claim C8. The limit leaves the list unchanged when it is absent, zero or negative, and
  keeps the first \<open>n\<close> entries when \<open>n\<close> is positive; with the limit 1 a list keeps its
  first element only.
\<close>

theorem limit_videos_truncates:
  "fst (limit_videos None filelist w) = filelist \<and>
   (n \<le> 0 \<longrightarrow> fst (limit_videos (Some n) filelist w) = filelist) \<and>
   (0 < n \<longrightarrow> fst (limit_videos (Some n) filelist w) = take (nat n) filelist) \<and>
   fst (limit_videos (Some 1) (x # xs) w) = [x] \<and>
   fst (limit_videos (Some 1) [] w) = []"
  by (simp add: limit_videos_def)

theorem limit_videos_truncates_witness:
  "(0::int) \<le> 0 \<and> fst (limit_videos (Some 0) [''a'', ''b'', ''c''] world0) = [''a'', ''b'', ''c''] \<and>
   (0::int) < 2 \<and> fst (limit_videos (Some 2) [''a'', ''b'', ''c''] world0) = [''a'', ''b''] \<and>
   fst (limit_videos (Some 1) [''a'', ''b'', ''c''] world0) = [''a'']"
  using limit_videos_truncates [of "[''a'', ''b'', ''c'']" world0 0 "''a''" "[''b'', ''c'']"]
    limit_videos_truncates [of "[''a'', ''b'', ''c'']" world0 2 "''a''" "[''b'', ''c'']"]
  by simp

text \<open>
  Claim C9 says the hook returns for all values of its arguments. The code divides by
  \<open>total_size\<close> and by the elapsed time without a check: after the first block, with a
  total size of 0, the hook raises \<open>ZeroDivisionError\<close> whatever the clock reads; and
  so it does for any total size when the clock has not advanced since the first call.
\<close>

theorem reporthook_raises_on_zero_total_size:
  "fst (reporthook now 1 8192 0 start_time) =
     Inl (ZeroDivisionError (if now = start_time then ''float division by zero''
                             else ''division by zero'')) \<and>
   fst (reporthook now 1 8192 4096 now) = Inl (ZeroDivisionError ''float division by zero'')"
  by (simp add: reporthook_def Let_def)

end
